theory Spec2Isabelle
  imports Main
begin

section \<open>Values crossing the HTTP boundary\<close>

text \<open>
  The service of \<^verbatim>\<open>main.py\<close> receives JSON, hands Python dictionaries around and
  sends JSON back. A value that \<^verbatim>\<open>request.json()\<close> can produce is a \<open>json\<close>:
  \<^verbatim>\<open>None\<close>, a \<^verbatim>\<open>bool\<close>, an \<^verbatim>\<open>int\<close> (unbounded), a finite \<^verbatim>\<open>float\<close>
  (mantissa and binary exponent; no function below inspects one), a \<^verbatim>\<open>str\<close>, a
  \<^verbatim>\<open>list\<close> or a \<^verbatim>\<open>dict\<close> with string keys. A dictionary is an association list in
  insertion order, read with \<open>map_of\<close>; every dictionary literal of the source has distinct
  keys.
\<close>

datatype json =
    JNull
  | JBool bool
  | JInt int
  | JFloat int int
  | JStr string
  | JArr "json list"
  | JObj "(string \<times> json) list"

type_synonym dict = "(string \<times> json) list"

text \<open>
  What a Python call can raise: an instance of a class derived from \<^verbatim>\<open>Exception\<close>
  (named by its class), or of one derived from \<^verbatim>\<open>BaseException\<close> only
  (\<^verbatim>\<open>KeyboardInterrupt\<close>, \<^verbatim>\<open>SystemExit\<close>), which \<^verbatim>\<open>except Exception\<close> lets through.
\<close>

datatype raised = Exc string | BaseExc string

text \<open>\<^verbatim>\<open>d.get(k, default)\<close> on a dictionary.\<close>

definition dict_get :: "dict \<Rightarrow> string \<Rightarrow> json \<Rightarrow> json" where
  "dict_get d k dflt = (case map_of d k of None \<Rightarrow> dflt | Some v \<Rightarrow> v)"

text \<open>
  Python can hash every JSON value but a list and a dictionary; using one of these two as
  a dictionary key raises \<^verbatim>\<open>TypeError\<close>.
\<close>

fun hashable :: "json \<Rightarrow> bool" where
  "hashable (JArr xs) = False"
| "hashable (JObj kvs) = False"
| "hashable v = True"

text \<open>Reading a response: the member \<open>k\<close> of an object, the elements of an array.\<close>

fun json_field :: "json \<Rightarrow> string \<Rightarrow> json option" where
  "json_field (JObj kvs) k = map_of kvs k"
| "json_field v k = None"

fun json_keys :: "json \<Rightarrow> string list option" where
  "json_keys (JObj kvs) = Some (map fst kvs)"
| "json_keys v = None"

fun json_elements :: "json \<Rightarrow> json list option" where
  "json_elements (JArr xs) = Some xs"
| "json_elements v = None"

definition nl :: string where
  "nl = [CHR 0x0A]"

section \<open>QueryProcessorNode: the five query templates\<close>

text \<open>
  The triple-quoted literals of \<^verbatim>\<open>generate_cypher_query\<close>, character for character:
  each starts with a line break, keeps the indentation of the source and ends with the
  twelve blanks before the closing quotes.
\<close>

definition vocabulary_pattern :: string where
  "vocabulary_pattern =
     nl @
     ''                MATCH (w:Word {language: 'Afrikaans'})'' @ nl @
     ''                WHERE toLower(w.english) CONTAINS toLower($topic) '' @ nl @
     ''                   OR toLower(w.afrikaans) CONTAINS toLower($topic)'' @ nl @
     ''                RETURN w.afrikaans as afrikaans, w.english as english, w.pronunciation as pronunciation'' @ nl @
     ''                LIMIT 10'' @ nl @
     ''            ''"

definition story_pattern :: string where
  "story_pattern =
     nl @
     ''                MATCH (s:Story)'' @ nl @
     ''                WHERE toLower(s.title) CONTAINS toLower($topic) '' @ nl @
     ''                   OR toLower(s.content) CONTAINS toLower($topic)'' @ nl @
     ''                RETURN s.title as title, s.content as content, s.difficulty as difficulty'' @ nl @
     ''                LIMIT 5'' @ nl @
     ''            ''"

definition culture_pattern :: string where
  "culture_pattern =
     nl @
     ''                MATCH (c:CulturalItem)'' @ nl @
     ''                WHERE toLower(c.name) CONTAINS toLower($topic) '' @ nl @
     ''                   OR toLower(c.description) CONTAINS toLower($topic)'' @ nl @
     ''                RETURN c.name as name, c.description as description, c.category as category'' @ nl @
     ''                LIMIT 5'' @ nl @
     ''            ''"

definition grammar_pattern :: string where
  "grammar_pattern =
     nl @
     ''                MATCH (g:GrammarRule)'' @ nl @
     ''                WHERE toLower(g.rule) CONTAINS toLower($topic) '' @ nl @
     ''                   OR toLower(g.explanation) CONTAINS toLower($topic)'' @ nl @
     ''                RETURN g.rule as rule, g.explanation as explanation, g.examples as examples'' @ nl @
     ''                LIMIT 5'' @ nl @
     ''            ''"

definition general_pattern :: string where
  "general_pattern =
     nl @
     ''                MATCH (n)'' @ nl @
     ''                WHERE toLower(n.name) CONTAINS toLower($topic) '' @ nl @
     ''                   OR toLower(n.content) CONTAINS toLower($topic)'' @ nl @
     ''                   OR toLower(n.description) CONTAINS toLower($topic)'' @ nl @
     ''                RETURN labels(n)[0] as type, n.name as name, n.content as content, n.description as description'' @ nl @
     ''                LIMIT 10'' @ nl @
     ''            ''"

text \<open>The dictionary \<^verbatim>\<open>patterns\<close>.\<close>

definition patterns :: "(string \<times> string) list" where
  "patterns =
     [(''vocabulary'', vocabulary_pattern),
      (''story'', story_pattern),
      (''culture'', culture_pattern),
      (''grammar'', grammar_pattern),
      (''general'', general_pattern)]"

text \<open>
  \<^verbatim>\<open>return patterns.get(query_type, patterns["general"])\<close>. The arguments are whatever
  the request body held, so \<open>query_type\<close> is a \<open>json\<close>: a string is looked up, any other
  hashable value equals no key, a list or dictionary makes \<^verbatim>\<open>dict.get\<close> raise
  \<^verbatim>\<open>TypeError\<close>. The subscript \<^verbatim>\<open>patterns["general"]\<close> is evaluated first.
\<close>

definition generate_cypher_query :: "json \<Rightarrow> json \<Rightarrow> json \<Rightarrow> raised + string" where
  "generate_cypher_query query_type topic difficulty =
     (case map_of patterns ''general'' of
        None \<Rightarrow> Inl (Exc ''KeyError'')
      | Some general \<Rightarrow>
          (case query_type of
             JStr s \<Rightarrow> Inr (case map_of patterns s of None \<Rightarrow> general | Some p \<Rightarrow> p)
           | JArr xs \<Rightarrow> Inl (Exc ''TypeError'')
           | JObj kvs \<Rightarrow> Inl (Exc ''TypeError'')
           | _ \<Rightarrow> Inr general))"

section \<open>Neo4jNode: running a query\<close>

text \<open>
  The graph database and its driver are outside the repository. One use of the driver
  inside \<^verbatim>\<open>Neo4jNode.query\<close> (opening the session, \<^verbatim>\<open>session.run\<close>, reading the
  result, leaving the \<^verbatim>\<open>with\<close> block) either raises before any record is read, or
  yields a cursor: the records read so far, and what was raised after them, if anything.
  The logging calls return nothing and are left out.

  A record becomes a row by \<^verbatim>\<open>dict(record)\<close>. Its values are whatever the driver
  delivers: a value that \<^verbatim>\<open>json.dumps\<close> can encode, which is a \<open>json\<close>, or one it
  cannot (a date, a byte array, a node; named by its class), on which \<^verbatim>\<open>json.dumps\<close>
  raises \<^verbatim>\<open>TypeError\<close>.
\<close>

datatype cell = Encodable json | Unencodable string

type_synonym row = "(string \<times> cell) list"

text \<open>A dictionary of JSON values, such as the handler builds itself, as a row.\<close>

definition json_row :: "dict \<Rightarrow> row" where
  "json_row d = map (\<lambda>(k, v). (k, Encodable v)) d"

text \<open>What \<^verbatim>\<open>json.dumps\<close> sees of a row: its JSON values, if all of them are.\<close>

fun encode_row :: "row \<Rightarrow> dict option" where
  "encode_row [] = Some []"
| "encode_row ((k, Encodable v) # rest) =
     (case encode_row rest of None \<Rightarrow> None | Some d \<Rightarrow> Some ((k, v) # d))"
| "encode_row ((k, Unencodable c) # rest) = None"

datatype cursor = Cursor "row list" "raised option"

record Neo4jNode =
  driver :: "string \<Rightarrow> dict \<Rightarrow> raised + cursor"

text \<open>\<^verbatim>\<open>parameters or {}\<close>: \<^verbatim>\<open>None\<close> and the empty dictionary are both false.\<close>

definition or_empty :: "dict option \<Rightarrow> dict" where
  "or_empty parameters =
     (case parameters of None \<Rightarrow> [] | Some p \<Rightarrow> if p = [] then [] else p)"

text \<open>
  The handler \<^verbatim>\<open>except Exception as e: ... return []\<close>; anything else raised leaves
  the function.
\<close>

definition except_Exception :: "raised \<Rightarrow> raised + row list" where
  "except_Exception r = (case r of Exc e \<Rightarrow> Inr [] | BaseExc b \<Rightarrow> Inl (BaseExc b))"

definition query :: "Neo4jNode \<Rightarrow> string \<Rightarrow> dict option \<Rightarrow> raised + row list" where
  "query self cypher_query parameters =
     (case driver self cypher_query (or_empty parameters) of
        Inl r \<Rightarrow> except_Exception r
      | Inr (Cursor records None) \<Rightarrow> Inr records
      | Inr (Cursor records (Some r)) \<Rightarrow> except_Exception r)"

text \<open>The module-level \<^verbatim>\<open>neo4j_node = None\<close>, before \<^verbatim>\<open>startup_event\<close> has run.\<close>

definition neo4j_node_initial :: "Neo4jNode option" where
  "neo4j_node_initial = None"

section \<open>MCPToolNode and the GET endpoints\<close>

definition get_tool_schema :: json where
  "get_tool_schema =
     JObj [
       (''name'', JStr ''query_afrikaans_knowledge_graph''),
       (''description'', JStr ''Query the Afrikaans knowledge graph for educational content, stories, vocabulary, and cultural information''),
       (''inputSchema'', JObj [
          (''type'', JStr ''object''),
          (''properties'', JObj [
             (''query_type'', JObj [
                (''type'', JStr ''string''),
                (''enum'', JArr [JStr ''vocabulary'', JStr ''story'', JStr ''culture'',
                                 JStr ''grammar'', JStr ''general'']),
                (''description'', JStr ''Type of Afrikaans content to search for'')]),
             (''topic'', JObj [
                (''type'', JStr ''string''),
                (''description'', JStr ''Specific topic or question about Afrikaans'')]),
             (''difficulty'', JObj [
                (''type'', JStr ''string''),
                (''enum'', JArr [JStr ''beginner'', JStr ''intermediate'', JStr ''advanced'']),
                (''default'', JStr ''beginner'')])]),
          (''required'', JArr [JStr ''query_type'', JStr ''topic''])])]"

definition get_tools :: json where
  "get_tools = JObj [(''tools'', JArr [get_tool_schema])]"

text \<open>\<^verbatim>\<open>neo4j_node is not None\<close> is the case distinction on the handle.\<close>

definition health_check :: "Neo4jNode option \<Rightarrow> json" where
  "health_check neo4j_node =
     JObj [
       (''status'', JStr ''healthy''),
       (''message'', JStr ''Afrikaans Agent MCP Server is running!''),
       (''neo4j_connected'', JBool (case neo4j_node of None \<Rightarrow> False | Some node \<Rightarrow> True))]"

text \<open>Following a path of member names into nested objects.\<close>

fun json_path :: "json \<Rightarrow> string list \<Rightarrow> json option" where
  "json_path v [] = Some v"
| "json_path v (k # ks) = (case json_field v k of None \<Rightarrow> None | Some w \<Rightarrow> json_path w ks)"

section \<open>POST /query: the pipeline\<close>

text \<open>
  \<^verbatim>\<open>json.dumps\<close> belongs to the standard library. On a dictionary of JSON values it
  returns text, given by the parameter \<open>dumps\<close>; on a row with a value it cannot encode
  it raises \<^verbatim>\<open>TypeError\<close>. Each \<^verbatim>\<open>yield f"data: {json.dumps(d)}\n\n"\<close> of
  \<^verbatim>\<open>generate_stream\<close> that gets its text produces one chunk. The pause between result
  events is not modelled.
\<close>

definition sse_chunk :: "(json \<Rightarrow> string) \<Rightarrow> json \<Rightarrow> string" where
  "sse_chunk dumps d = ''data: '' @ dumps d @ nl @ nl"

text \<open>
  A generator yields one item after the other and then ends, normally or by raising: its
  outcome is the list of the items yielded and what was raised, if anything. Nothing in
  \<^verbatim>\<open>generate_stream\<close> catches an exception.

  The loop \<^verbatim>\<open>for i, result in enumerate(results)\<close>, with the counter \<open>i\<close>: the
  dictionaries encoded for the \<open>result\<close> events, up to the first row that cannot be.
\<close>

fun result_events :: "int \<Rightarrow> row list \<Rightarrow> json list \<times> raised option" where
  "result_events i [] = ([], None)"
| "result_events i (result # rest) =
     (case encode_row result of
        None \<Rightarrow> ([], Some (Exc ''TypeError''))
      | Some data \<Rightarrow>
          (case result_events (i + 1) rest of
             (events, ended) \<Rightarrow>
               (JObj [(''status'', JStr ''result''), (''data'', JObj data), (''index'', JInt i)]
                  # events, ended)))"

text \<open>
  The dictionaries encoded by the three \<^verbatim>\<open>yield\<close> statements, in order. \<open>topic\<close> is a
  value of the request body and the row count an integer, so the first and the last
  dictionary are always encoded; the last is reached only when the loop ends normally.
\<close>

definition stream_events :: "json \<Rightarrow> row list \<Rightarrow> json list \<times> raised option" where
  "stream_events topic results =
     (case result_events 0 results of
        (events, None) \<Rightarrow>
          (JObj [(''status'', JStr ''processing''), (''query'', topic)]
             # events
             @ [JObj [(''status'', JStr ''complete''),
                      (''total_results'', JInt (int (length results)))]],
           None)
      | (events, Some r) \<Rightarrow>
          (JObj [(''status'', JStr ''processing''), (''query'', topic)] # events, Some r))"

text \<open>The chunks yielded: each encoded dictionary framed as one event-stream message.\<close>

definition generate_stream ::
    "(json \<Rightarrow> string) \<Rightarrow> json \<Rightarrow> row list \<Rightarrow> string list \<times> raised option" where
  "generate_stream dumps topic results =
     (case stream_events topic results of
        (events, ended) \<Rightarrow> (map (sse_chunk dumps) events, ended))"

text \<open>The three \<^verbatim>\<open>body.get\<close> calls: \<open>(query_type, topic, difficulty)\<close>.\<close>

definition request_fields :: "dict \<Rightarrow> json \<times> json \<times> json" where
  "request_fields body =
     (dict_get body ''query_type'' (JStr ''general''),
      dict_get body ''topic'' (JStr ''''),
      dict_get body ''difficulty'' (JStr ''beginner''))"

text \<open>
  The handler up to the assignment of \<^verbatim>\<open>results\<close>. Its input is the outcome of
  \<^verbatim>\<open>await request.json()\<close>: what that call raised, or the parsed body; \<^verbatim>\<open>body.get\<close>
  exists on a dictionary only. The outcome keeps \<open>topic\<close> and \<open>results\<close> for the stream,
  and \<open>query_calls\<close>: the arguments of every call of \<^verbatim>\<open>neo4j_node.query\<close> made.
\<close>

record pipeline =
  p_topic :: json
  query_calls :: "(string \<times> dict) list"
  p_results :: "row list"

definition query_results :: "Neo4jNode option \<Rightarrow> raised + json \<Rightarrow> raised + pipeline" where
  "query_results neo4j_node request_json =
     (case request_json of
        Inl r \<Rightarrow> Inl r
      | Inr (JObj body) \<Rightarrow>
          (case request_fields body of (query_type, topic, difficulty) \<Rightarrow>
             (case generate_cypher_query query_type topic difficulty of
                Inl r \<Rightarrow> Inl r
              | Inr cypher_query \<Rightarrow>
                  (case neo4j_node of
                     Some node \<Rightarrow>
                       (let parameters = [(''topic'', topic), (''difficulty'', difficulty)] in
                          case query node cypher_query (Some parameters) of
                            Inl r \<Rightarrow> Inl r
                          | Inr results \<Rightarrow>
                              Inr \<lparr>p_topic = topic,
                                   query_calls = [(cypher_query, parameters)],
                                   p_results = results\<rparr>)
                   | None \<Rightarrow>
                       Inr \<lparr>p_topic = topic,
                            query_calls = [],
                            p_results = [json_row [(''message'', JStr ''Neo4j not connected''),
                                                   (''topic'', topic),
                                                   (''query_type'', query_type)]]\<rparr>)))
      | Inr other \<Rightarrow> Inl (Exc ''AttributeError''))"

text \<open>
  The whole handler: what it raises itself, or the outcome of the generator it returns.
\<close>

definition query_knowledge_graph ::
    "(json \<Rightarrow> string) \<Rightarrow> Neo4jNode option \<Rightarrow> raised + json \<Rightarrow>
     raised + (string list \<times> raised option)" where
  "query_knowledge_graph dumps neo4j_node request_json =
     (case query_results neo4j_node request_json of
        Inl r \<Rightarrow> Inl r
      | Inr p \<Rightarrow> Inr (generate_stream dumps (p_topic p) (p_results p)))"

section \<open>The template selector\<close>

text \<open>
  Claim C2. On every string \<open>generate_cypher_query\<close> returns a template and raises
  nothing: for each of the five keys of \<open>patterns\<close> the template stored under it, for any
  other string the general one. The function reads its arguments only; it touches no state.
\<close>

theorem generate_cypher_query_total:
  "generate_cypher_query (JStr s) topic difficulty =
     Inr (if s = ''vocabulary'' then vocabulary_pattern
          else if s = ''story'' then story_pattern
          else if s = ''culture'' then culture_pattern
          else if s = ''grammar'' then grammar_pattern
          else general_pattern)"
  by (simp add: generate_cypher_query_def patterns_def)

text \<open>
  Claim C9. The outcome of \<open>generate_cypher_query\<close> is determined by \<open>query_type\<close>: two
  calls that differ in \<open>topic\<close> and \<open>difficulty\<close> only give the same outcome, so neither
  argument flows into the returned string.
\<close>

theorem generate_cypher_query_ignores_topic_difficulty:
  "generate_cypher_query query_type topic1 difficulty1 =
   generate_cypher_query query_type topic2 difficulty2"
  by (simp add: generate_cypher_query_def)

section \<open>The event stream\<close>

lemma encode_row_json_row: "encode_row (json_row d) = Some d"
  by (induction d) (auto simp add: json_row_def)

lemma encode_row_Some: "encode_row r = Some d \<Longrightarrow> r = json_row d"
proof (induction r arbitrary: d rule: encode_row.induct)
  case 1
  then show ?case by (simp add: json_row_def)
next
  case (2 k v rest)
  then show ?case by (auto simp add: json_row_def split: option.splits)
next
  case (3 k c rest)
  then show ?case by simp
qed

lemma result_events_json_rows:
  "\<exists>events. result_events i (map json_row rows) = (events, None)
     \<and> length events = length rows
     \<and> (\<forall>k < length rows.
           events ! k = JObj [(''status'', JStr ''result''), (''data'', JObj (rows ! k)),
                              (''index'', JInt (i + int k))])"
proof (induction rows arbitrary: i)
  case Nil
  then show ?case by simp
next
  case (Cons r rs)
  from Cons.IH [of "i + 1"] obtain events where
    run: "result_events (i + 1) (map json_row rs) = (events, None)" and
    len: "length events = length rs" and
    nth: "\<forall>k < length rs.
           events ! k = JObj [(''status'', JStr ''result''), (''data'', JObj (rs ! k)),
                              (''index'', JInt (i + 1 + int k))]"
    by blast
  let ?e = "JObj [(''status'', JStr ''result''), (''data'', JObj r), (''index'', JInt i)]"
  have "result_events i (map json_row (r # rs)) = (?e # events, None)"
    using run by (simp add: encode_row_json_row)
  moreover have "length (?e # events) = length (r # rs)"
    using len by simp
  moreover have "\<forall>k < length (r # rs).
      (?e # events) ! k = JObj [(''status'', JStr ''result''), (''data'', JObj ((r # rs) ! k)),
                               (''index'', JInt (i + int k))]"
  proof (intro allI impI)
    fix k
    assume "k < length (r # rs)"
    then show "(?e # events) ! k =
        JObj [(''status'', JStr ''result''), (''data'', JObj ((r # rs) ! k)),
              (''index'', JInt (i + int k))]"
      using nth by (cases k) (simp_all add: algebra_simps)
  qed
  ultimately show ?case by blast
qed

text \<open>
  Claim C1, as amended. For every list of result rows whose values \<^verbatim>\<open>json.dumps\<close> can
  encode (every such list is \<open>map json_row rows\<close>), the generator ends normally after
  exactly \<open>length rows + 2\<close> chunks: first the \<open>processing\<close> event, then one \<open>result\<close>
  event per row in list order, carrying that row and its zero-based index, and last the
  \<open>complete\<close> event carrying the number of rows. For no rows these are the two events
  \<open>processing\<close> and \<open>complete\<close> with \<open>total_results = 0\<close>; for two rows they are four.
  (As stated, for every list of rows, the claim fails: a row from the database may hold a
  value that cannot be encoded, and the generator stops there.)
\<close>

theorem generate_stream_events:
  "snd (generate_stream dumps topic (map json_row rows)) = None
   \<and> length (fst (generate_stream dumps topic (map json_row rows))) = length rows + 2
   \<and> fst (generate_stream dumps topic (map json_row rows)) ! 0 =
       sse_chunk dumps (JObj [(''status'', JStr ''processing''), (''query'', topic)])
   \<and> (\<forall>i < length rows.
         fst (generate_stream dumps topic (map json_row rows)) ! (i + 1) =
           sse_chunk dumps (JObj [(''status'', JStr ''result''), (''data'', JObj (rows ! i)),
                                  (''index'', JInt (int i))]))
   \<and> fst (generate_stream dumps topic (map json_row rows)) ! (length rows + 1) =
       sse_chunk dumps (JObj [(''status'', JStr ''complete''),
                              (''total_results'', JInt (int (length rows)))])
   \<and> generate_stream dumps topic [] =
       ([sse_chunk dumps (JObj [(''status'', JStr ''processing''), (''query'', topic)]),
         sse_chunk dumps (JObj [(''status'', JStr ''complete''), (''total_results'', JInt 0)])],
        None)
   \<and> generate_stream dumps topic [json_row r0, json_row r1] =
       ([sse_chunk dumps (JObj [(''status'', JStr ''processing''), (''query'', topic)]),
         sse_chunk dumps (JObj [(''status'', JStr ''result''), (''data'', JObj r0), (''index'', JInt 0)]),
         sse_chunk dumps (JObj [(''status'', JStr ''result''), (''data'', JObj r1), (''index'', JInt 1)]),
         sse_chunk dumps (JObj [(''status'', JStr ''complete''), (''total_results'', JInt 2)])],
        None)"
proof -
  let ?s = "generate_stream dumps topic (map json_row rows)"
  from result_events_json_rows [of 0 rows] obtain events where
    run: "result_events 0 (map json_row rows) = (events, None)" and
    len: "length events = length rows" and
    nth: "\<forall>k < length rows.
           events ! k = JObj [(''status'', JStr ''result''), (''data'', JObj (rows ! k)),
                              (''index'', JInt (0 + int k))]"
    by blast
  have s: "?s =
      (sse_chunk dumps (JObj [(''status'', JStr ''processing''), (''query'', topic)])
         # map (sse_chunk dumps) events
         @ [sse_chunk dumps (JObj [(''status'', JStr ''complete''),
                                   (''total_results'', JInt (int (length rows)))])],
       None)"
    using run by (simp add: generate_stream_def stream_events_def)
  have ended: "snd ?s = None"
    by (simp add: s)
  have count: "length (fst ?s) = length rows + 2"
    by (simp add: s len)
  have first: "fst ?s ! 0 =
      sse_chunk dumps (JObj [(''status'', JStr ''processing''), (''query'', topic)])"
    by (simp add: s)
  have mid: "fst ?s ! (i + 1) =
      sse_chunk dumps (JObj [(''status'', JStr ''result''), (''data'', JObj (rows ! i)),
                             (''index'', JInt (int i))])"
    if "i < length rows" for i
    using that nth len by (simp add: s nth_append)
  have final: "fst ?s ! (length rows + 1) =
      sse_chunk dumps (JObj [(''status'', JStr ''complete''),
                             (''total_results'', JInt (int (length rows)))])"
    by (simp add: s len nth_append)
  have none: "generate_stream dumps topic [] =
       ([sse_chunk dumps (JObj [(''status'', JStr ''processing''), (''query'', topic)]),
         sse_chunk dumps (JObj [(''status'', JStr ''complete''), (''total_results'', JInt 0)])],
        None)"
    by (simp add: generate_stream_def stream_events_def)
  have two: "generate_stream dumps topic [json_row r0, json_row r1] =
       ([sse_chunk dumps (JObj [(''status'', JStr ''processing''), (''query'', topic)]),
         sse_chunk dumps (JObj [(''status'', JStr ''result''), (''data'', JObj r0), (''index'', JInt 0)]),
         sse_chunk dumps (JObj [(''status'', JStr ''result''), (''data'', JObj r1), (''index'', JInt 1)]),
         sse_chunk dumps (JObj [(''status'', JStr ''complete''), (''total_results'', JInt 2)])],
        None)"
    by (simp add: generate_stream_def stream_events_def encode_row_json_row)
  from ended count first mid final none two show ?thesis by blast
qed

text \<open>
  Three rows of Afrikaans words, the last one empty: five chunks, the third of them the
  second row with index 1, and a normal end.
\<close>

theorem generate_stream_events_witness:
  "snd (generate_stream (\<lambda>d. []) (JStr ''hello'')
          (map json_row [[(''afrikaans'', JStr ''hallo'')], [(''afrikaans'', JStr ''totsiens'')], []]))
     = None
   \<and> length (fst (generate_stream (\<lambda>d. []) (JStr ''hello'')
          (map json_row [[(''afrikaans'', JStr ''hallo'')], [(''afrikaans'', JStr ''totsiens'')], []])))
     = 5
   \<and> fst (generate_stream (\<lambda>d. []) (JStr ''hello'')
          (map json_row [[(''afrikaans'', JStr ''hallo'')], [(''afrikaans'', JStr ''totsiens'')], []]))
       ! 2 =
       sse_chunk (\<lambda>d. []) (JObj [(''status'', JStr ''result''),
                                  (''data'', JObj [(''afrikaans'', JStr ''totsiens'')]),
                                  (''index'', JInt 1)])"
proof -
  let ?rows = "[[(''afrikaans'', JStr ''hallo'')], [(''afrikaans'', JStr ''totsiens'')], []]"
  let ?s = "generate_stream (\<lambda>d. []) (JStr ''hello'') (map json_row ?rows)"
  note ev = generate_stream_events [of "\<lambda>d. []" "JStr ''hello''" ?rows "[]" "[]"]
  from ev have ended: "snd ?s = None"
    by (rule conjunct1)
  from ev have "length (fst ?s) = length ?rows + 2"
    by blast
  then have len: "length (fst ?s) = 5"
    by simp
  from ev have "\<forall>i < length ?rows.
      fst ?s ! (i + 1) =
        sse_chunk (\<lambda>d. []) (JObj [(''status'', JStr ''result''), (''data'', JObj (?rows ! i)),
                                  (''index'', JInt (int i))])"
    by blast
  moreover have "1 < length ?rows"
    by simp
  ultimately have "fst ?s ! (1 + 1) =
        sse_chunk (\<lambda>d. []) (JObj [(''status'', JStr ''result''), (''data'', JObj (?rows ! 1)),
                                  (''index'', JInt (int 1))])"
    by blast
  then have third: "fst ?s ! 2 =
       sse_chunk (\<lambda>d. []) (JObj [(''status'', JStr ''result''),
                                  (''data'', JObj [(''afrikaans'', JStr ''totsiens'')]),
                                  (''index'', JInt 1)])"
    by (simp add: numeral_2_eq_2)
  from ended len third show ?thesis by blast
qed

text \<open>
  One story row whose \<open>published\<close> property is a date: the \<open>processing\<close> event is
  encoded, then \<^verbatim>\<open>json.dumps\<close> raises \<^verbatim>\<open>TypeError\<close> on the row; one event instead of
  three, and no \<open>complete\<close> event.
\<close>

theorem generate_stream_events_counterexample:
  "stream_events (JStr ''braai'')
      [[(''title'', Encodable (JStr ''Die braai'')), (''published'', Unencodable ''Date'')]] =
     ([JObj [(''status'', JStr ''processing''), (''query'', JStr ''braai'')]],
      Some (Exc ''TypeError''))"
  by (simp add: stream_events_def)

section \<open>The query executor\<close>

lemma except_Exception_Exc: "except_Exception (Exc e) = Inr []"
  by (simp add: except_Exception_def)


text \<open>
  Claim C3. Whatever the query string and the parameters, when the use of the driver
  raises an \<^verbatim>\<open>Exception\<close>, before any record or after some were read, \<open>query\<close> returns
  the empty list: it raises nothing and drops the records read so far. A query that
  matches nothing returns the same empty list, so the caller cannot tell the two apart.
  (An error is an instance of \<^verbatim>\<open>Exception\<close>, as everything the driver raises is; the
  handler does not catch \<^verbatim>\<open>KeyboardInterrupt\<close> or \<^verbatim>\<open>SystemExit\<close>.)
\<close>

theorem query_failure_returns_empty:
  "(driver self cypher_query (or_empty parameters) = Inl (Exc e) \<longrightarrow>
      query self cypher_query parameters = Inr [])
   \<and> (driver self cypher_query (or_empty parameters) = Inr (Cursor records (Some (Exc e))) \<longrightarrow>
      query self cypher_query parameters = Inr [])
   \<and> (driver self cypher_query (or_empty parameters) = Inr (Cursor [] None) \<longrightarrow>
      query self cypher_query parameters = Inr [])"
  by (simp add: query_def except_Exception_Exc)

text \<open>
  The three cases at concrete drivers: one that cannot reach the database, one whose
  session expires after the first record, one that finds nothing.
\<close>

theorem query_failure_returns_empty_witness:
  "query \<lparr>driver = (\<lambda>q ps. Inl (Exc ''ServiceUnavailable''))\<rparr> general_pattern None = Inr []
   \<and> query \<lparr>driver = (\<lambda>q ps. Inr (Cursor [json_row [(''name'', JStr ''braai'')]] (Some (Exc ''SessionExpired''))))\<rparr>
         general_pattern (Some [(''topic'', JStr ''braai''), (''difficulty'', JStr ''beginner'')]) = Inr []
   \<and> query \<lparr>driver = (\<lambda>q ps. Inr (Cursor [] None))\<rparr> general_pattern None = Inr []"
proof -
  have a: "query \<lparr>driver = (\<lambda>q ps. Inl (Exc ''ServiceUnavailable''))\<rparr> general_pattern None = Inr []"
    using query_failure_returns_empty
      [of "\<lparr>driver = (\<lambda>q ps. Inl (Exc ''ServiceUnavailable''))\<rparr>" general_pattern None
          "''ServiceUnavailable''" "[]"]
    by simp
  have b: "query \<lparr>driver = (\<lambda>q ps. Inr (Cursor [json_row [(''name'', JStr ''braai'')]] (Some (Exc ''SessionExpired''))))\<rparr>
         general_pattern (Some [(''topic'', JStr ''braai''), (''difficulty'', JStr ''beginner'')]) = Inr []"
    using query_failure_returns_empty
      [of "\<lparr>driver = (\<lambda>q ps. Inr (Cursor [json_row [(''name'', JStr ''braai'')]] (Some (Exc ''SessionExpired''))))\<rparr>"
          general_pattern "Some [(''topic'', JStr ''braai''), (''difficulty'', JStr ''beginner'')]"
          "''SessionExpired''" "[json_row [(''name'', JStr ''braai'')]]"]
    by simp
  have c: "query \<lparr>driver = (\<lambda>q ps. Inr (Cursor [] None))\<rparr> general_pattern None = Inr []"
    using query_failure_returns_empty
      [of "\<lparr>driver = (\<lambda>q ps. Inr (Cursor [] None))\<rparr>" general_pattern None "''x''" "[]"]
    by simp
  from a b c show ?thesis by simp
qed

section \<open>The pipeline without a database\<close>

lemma generate_cypher_query_hashable:
  "hashable query_type \<Longrightarrow> \<exists>c. generate_cypher_query query_type topic difficulty = Inr c"
  by (cases query_type) (simp_all add: generate_cypher_query_def patterns_def)


text \<open>
  Claim C4, as amended. With no connection handle, every request whose body is a JSON
  object and whose \<open>query_type\<close> (after defaulting) is not a JSON array or object gets a
  result list of exactly one row, the diagnostic row, and \<^verbatim>\<open>neo4j_node.query\<close> is not
  called, whatever \<open>query_type\<close> and \<open>topic\<close> are otherwise. (As stated, for every
  request, the claim fails: the template lookup runs before the handle is tested.)
\<close>

theorem mock_results:
  "hashable (dict_get body ''query_type'' (JStr ''general'')) \<Longrightarrow>
   query_results None (Inr (JObj body)) =
     Inr \<lparr>p_topic = dict_get body ''topic'' (JStr ''''),
          query_calls = [],
          p_results = [json_row [(''message'', JStr ''Neo4j not connected''),
                        (''topic'', dict_get body ''topic'' (JStr '''')),
                        (''query_type'', dict_get body ''query_type'' (JStr ''general''))]]\<rparr>"
proof -
  assume h: "hashable (dict_get body ''query_type'' (JStr ''general''))"
  from generate_cypher_query_hashable [OF h]
  obtain c where "generate_cypher_query (dict_get body ''query_type'' (JStr ''general''))
      (dict_get body ''topic'' (JStr '''')) (dict_get body ''difficulty'' (JStr ''beginner'')) = Inr c"
    by blast
  then show ?thesis
    by (simp add: query_results_def request_fields_def)
qed

text \<open>
  An unknown \<open>query_type\<close> and a numeric \<open>topic\<close>, with no handle.
\<close>

theorem mock_results_witness:
  "query_results None (Inr (JObj [(''query_type'', JStr ''slang''), (''topic'', JInt 7)])) =
     Inr \<lparr>p_topic = JInt 7,
          query_calls = [],
          p_results = [json_row [(''message'', JStr ''Neo4j not connected''),
                        (''topic'', JInt 7),
                        (''query_type'', JStr ''slang'')]]\<rparr>"
  using mock_results [of "[(''query_type'', JStr ''slang''), (''topic'', JInt 7)]"]
  by (simp add: dict_get_def)

text \<open>
  A request whose \<open>query_type\<close> is the empty JSON array: \<^verbatim>\<open>patterns.get\<close> raises
  \<^verbatim>\<open>TypeError\<close> and no result list is produced.
\<close>

theorem mock_results_counterexample:
  "query_results None (Inr (JObj [(''query_type'', JArr []), (''topic'', JStr ''hello'')])) =
     Inl (Exc ''TypeError'')"
  by (simp add: query_results_def request_fields_def dict_get_def generate_cypher_query_def
      patterns_def)

text \<open>
  Claim C10. With no connection handle, whenever the handler produces its result list, the
  body is a JSON object and the list holds exactly the row with the keys \<open>message\<close>,
  \<open>topic\<close> and \<open>query_type\<close>, in this order: the fixed message, and the values that
  \<^verbatim>\<open>body.get\<close> gave for \<open>topic\<close> (default the empty string) and \<open>query_type\<close> (default
  \<open>general\<close>).
\<close>

theorem mock_row_shape:
  "query_results None request_json = Inr p \<Longrightarrow>
   \<exists>body. request_json = Inr (JObj body)
     \<and> p_results p = [json_row [(''message'', JStr ''Neo4j not connected''),
                       (''topic'', dict_get body ''topic'' (JStr '''')),
                       (''query_type'', dict_get body ''query_type'' (JStr ''general''))]]"
  by (auto simp add: query_results_def request_fields_def
      split: sum.splits json.splits)

text \<open>
  A body with a topic only: the handler does produce results, and the row shows the
  defaulted \<open>query_type\<close>.
\<close>

theorem mock_row_shape_witness:
  "query_results None (Inr (JObj [(''topic'', JStr ''braai'')])) =
     Inr \<lparr>p_topic = JStr ''braai'', query_calls = [],
          p_results = [json_row [(''message'', JStr ''Neo4j not connected''),
                        (''topic'', JStr ''braai''),
                        (''query_type'', JStr ''general'')]]\<rparr>
   \<and> (\<exists>body. (Inr (JObj [(''topic'', JStr ''braai'')]) :: raised + json) = Inr (JObj body)
     \<and> p_results \<lparr>p_topic = JStr ''braai'', query_calls = [],
          p_results = [json_row [(''message'', JStr ''Neo4j not connected''),
                        (''topic'', JStr ''braai''),
                        (''query_type'', JStr ''general'')]]\<rparr> =
           [json_row [(''message'', JStr ''Neo4j not connected''),
                      (''topic'', dict_get body ''topic'' (JStr '''')),
                      (''query_type'', dict_get body ''query_type'' (JStr ''general''))]])"
proof -
  have run: "query_results None (Inr (JObj [(''topic'', JStr ''braai'')])) =
     Inr \<lparr>p_topic = JStr ''braai'', query_calls = [],
          p_results = [json_row [(''message'', JStr ''Neo4j not connected''),
                        (''topic'', JStr ''braai''),
                        (''query_type'', JStr ''general'')]]\<rparr>"
    by (simp add: query_results_def request_fields_def dict_get_def generate_cypher_query_def
        patterns_def)
  from run mock_row_shape [OF run] show ?thesis by (rule conjI)
qed

text \<open>
  Claim C6. With no connection handle, the request body
  \<^verbatim>\<open>{"query_type": "vocabulary", "topic": "hello"}\<close> is answered by exactly three
  chunks: the \<open>processing\<close> event, one \<open>result\<close> event with the diagnostic row, and
  last the event \<^verbatim>\<open>{"status": "complete", "total_results": 1}\<close>.
\<close>

theorem vocabulary_hello_stream:
  "query_knowledge_graph dumps None
      (Inr (JObj [(''query_type'', JStr ''vocabulary''), (''topic'', JStr ''hello'')])) =
     Inr ([sse_chunk dumps (JObj [(''status'', JStr ''processing''), (''query'', JStr ''hello'')]),
           sse_chunk dumps (JObj [(''status'', JStr ''result''),
                                  (''data'', JObj [(''message'', JStr ''Neo4j not connected''),
                                                   (''topic'', JStr ''hello''),
                                                   (''query_type'', JStr ''vocabulary'')]),
                                  (''index'', JInt 0)]),
           sse_chunk dumps (JObj [(''status'', JStr ''complete''), (''total_results'', JInt 1)])],
          None)"
  by (simp add: query_knowledge_graph_def query_results_def request_fields_def dict_get_def
      generate_cypher_query_def patterns_def generate_stream_def stream_events_def json_row_def)

section \<open>Request fields\<close>





section \<open>The GET endpoints\<close>

text \<open>
  Claim C5, as amended. \<open>health_check\<close> always returns an object with exactly the
  fields \<open>status\<close>, \<open>message\<close> and \<open>neo4j_connected\<close>; \<open>status\<close> is \<open>healthy\<close> and
  \<open>neo4j_connected\<close> is the boolean telling whether the connection handle is present.
  With the initial handle the response has \<open>status\<close> \<open>healthy\<close> and \<open>neo4j_connected\<close>
  false. (The field is not called \<open>database_connected\<close>.)
\<close>

theorem health_check_fields:
  "json_keys (health_check neo4j_node) = Some [''status'', ''message'', ''neo4j_connected'']
   \<and> json_field (health_check neo4j_node) ''status'' = Some (JStr ''healthy'')
   \<and> json_field (health_check neo4j_node) ''message'' =
       Some (JStr ''Afrikaans Agent MCP Server is running!'')
   \<and> json_field (health_check neo4j_node) ''neo4j_connected'' =
       Some (JBool (case neo4j_node of None \<Rightarrow> False | Some node \<Rightarrow> True))
   \<and> json_field (health_check neo4j_node_initial) ''status'' = Some (JStr ''healthy'')
   \<and> json_field (health_check neo4j_node_initial) ''neo4j_connected'' = Some (JBool False)"
  by (simp add: health_check_def neo4j_node_initial_def)

text \<open>
  The response before any configuration has no member \<open>database_connected\<close>.
\<close>

theorem health_check_counterexample:
  "json_field (health_check neo4j_node_initial) ''database_connected'' = None"
  by (simp add: health_check_def)

text \<open>
  Claim C8, as amended. \<open>get_tools\<close> always returns an object whose only member,
  \<open>tools\<close>, is a list of exactly one tool descriptor with the fields \<open>name\<close>,
  \<open>description\<close> and \<open>inputSchema\<close>. In the schema, \<open>query_type\<close> has an enumeration
  and \<open>topic\<close> the type string, both are listed as required, and \<open>difficulty\<close> has an
  enumeration and the default \<open>beginner\<close>. (The response itself is not a list.)
\<close>

theorem get_tools_descriptor:
  "json_keys get_tools = Some [''tools'']
   \<and> json_field get_tools ''tools'' = Some (JArr [get_tool_schema])
   \<and> json_keys get_tool_schema = Some [''name'', ''description'', ''inputSchema'']
   \<and> json_path get_tool_schema [''inputSchema'', ''properties'', ''query_type'', ''enum''] =
       Some (JArr [JStr ''vocabulary'', JStr ''story'', JStr ''culture'', JStr ''grammar'',
                   JStr ''general''])
   \<and> json_path get_tool_schema [''inputSchema'', ''properties'', ''topic'', ''type''] =
       Some (JStr ''string'')
   \<and> json_path get_tool_schema [''inputSchema'', ''properties'', ''difficulty'', ''enum''] =
       Some (JArr [JStr ''beginner'', JStr ''intermediate'', JStr ''advanced''])
   \<and> json_path get_tool_schema [''inputSchema'', ''properties'', ''difficulty'', ''default''] =
       Some (JStr ''beginner'')
   \<and> json_path get_tool_schema [''inputSchema'', ''required''] =
       Some (JArr [JStr ''query_type'', JStr ''topic''])"
  by (simp add: get_tools_def get_tool_schema_def)

text \<open>
  The response of \<open>get_tools\<close> is not a JSON array.
\<close>

theorem get_tools_counterexample:
  "json_elements get_tools = None"
  by (simp add: get_tools_def)

end
